theory Spec2Isabelle
  imports Main
begin

section \<open>Backend descriptors and the registry\<close>

text \<open>
  The fields of \<^verbatim>\<open>api.LanguageBackend\<close> that \<^verbatim>\<open>internal/backends/backends.go\<close> reads.
  The registry \<^verbatim>\<open>languageBackends\<close> is a package-level slice of descriptors; the
  descriptors themselves live in other packages, so every function below takes the
  registry as its first argument.
\<close>

record LanguageBackend =
  Name :: string
  Alias :: string
  Specfile :: string
  Lockfile :: string
  FilenamePatterns :: "string list"

section \<open>Splitting a string at a separator\<close>

text \<open>
  Go's \<^verbatim>\<open>strings.Split(s, sep)\<close> for a one-byte separator (the only calls pass
  \<^verbatim>\<open>"-"\<close>): when \<^verbatim>\<open>s\<close> does not contain the separator the result is the
  one-element slice holding \<^verbatim>\<open>s\<close> (also for the empty string); otherwise it is
  the text before the first separator, followed by the split of the text after it.
\<close>

function strings_Split :: "string \<Rightarrow> char \<Rightarrow> string list" where
  "strings_Split s sep =
     (case dropWhile (\<lambda>c. c \<noteq> sep) s of
        [] \<Rightarrow> [s]
      | _ # rest \<Rightarrow> takeWhile (\<lambda>c. c \<noteq> sep) s # strings_Split rest sep)"
  by pat_completeness auto
termination
proof (relation "measure (\<lambda>(s, sep). length s)")
  show "wf (measure (\<lambda>(s, sep). length s))"
    by simp
next
  fix s :: string and sep :: char and x :: char and rest :: string
  assume "dropWhile (\<lambda>c. c \<noteq> sep) s = x # rest"
  then have "Suc (length rest) = length (dropWhile (\<lambda>c. c \<noteq> sep) s)"
    by simp
  also have "\<dots> \<le> length s"
    by (rule length_dropWhile_le)
  finally show "((rest, sep), (s, sep)) \<in> measure (\<lambda>(s, sep). length s)"
    by simp
qed

declare strings_Split.simps [simp del]

text \<open>
  Go's \<^verbatim>\<open>strings.Join(elems, sep)\<close> for a one-byte separator. The matcher does not
  call it; it states below that the split loses nothing: joining the parts gives the
  string back, and no part holds the separator.
\<close>

fun strings_Join :: "string list \<Rightarrow> char \<Rightarrow> string" where
  "strings_Join [] sep = []"
| "strings_Join [p] sep = p"
| "strings_Join (p # q # ps) sep = p @ sep # strings_Join (q # ps) sep"

section \<open>The language matcher\<close>

text \<open>
  \<^verbatim>\<open>bParts\<close> is a Go \<^verbatim>\<open>map[string]bool\<close>: reading a key that was never stored
  gives the zero value \<^verbatim>\<open>false\<close>.
\<close>

type_synonym parts = "string \<rightharpoonup> bool"

definition lookupPart :: "parts \<Rightarrow> string \<Rightarrow> bool" where
  "lookupPart bParts k = (case bParts k of None \<Rightarrow> False | Some v \<Rightarrow> v)"

text \<open>The loop \<^verbatim>\<open>for _, bPart := range ... { bParts[bPart] = true }\<close>.\<close>

fun storeParts :: "string list \<Rightarrow> parts \<Rightarrow> parts" where
  "storeParts [] bParts = bParts"
| "storeParts (bPart # rest) bParts = storeParts rest (bParts(bPart \<mapsto> True))"

text \<open>
  The loop over the parts of the language that stops at the first part with
  \<^verbatim>\<open>!bParts[lPart]\<close>: the result says whether it stopped there.
\<close>

fun missingPart :: "parts \<Rightarrow> string list \<Rightarrow> bool" where
  "missingPart bParts [] = False"
| "missingPart bParts (lPart # rest) =
     (if \<not> lookupPart bParts lPart then True else missingPart bParts rest)"

definition matchesLanguage :: "LanguageBackend \<Rightarrow> string \<Rightarrow> bool" where
  "matchesLanguage b language =
     (let bParts = storeParts (strings_Split (Name b) CHR ''-'') Map.empty;
          checkAlias = missingPart bParts (strings_Split language CHR ''-'')
      in if checkAlias then
           (let bParts = storeParts (strings_Split (Alias b) CHR ''-'') Map.empty
            in if missingPart bParts (strings_Split language CHR ''-'') then False
               else True)
         else True)"

section \<open>The file system and the ways the process stops\<close>

text \<open>
  Modelled from the spec: \<^verbatim>\<open>util.Exists\<close> and \<^verbatim>\<open>util.PatternExists\<close> (package
  \<^verbatim>\<open>internal/util\<close>) are the file-system probe, \<open>exists(path) -> bool\<close> and
  \<open>patternExists(globPattern) -> bool\<close> against the project directory; they only read,
  and a probe that fails answers "does not exist". The state holds the snapshot that
  answers the probes and the list of probes made so far, oldest first.
\<close>

datatype probe = ProbeExists string | ProbePattern string

record disk =
  existing :: "string \<Rightarrow> bool"
  globbing :: "string \<Rightarrow> bool"
  probed :: "probe list"

definition util_Exists :: "string \<Rightarrow> disk \<Rightarrow> bool \<times> disk" where
  "util_Exists path d = (existing d path, d\<lparr>probed := probed d @ [ProbeExists path]\<rparr>)"

definition util_PatternExists :: "string \<Rightarrow> disk \<Rightarrow> bool \<times> disk" where
  "util_PatternExists pat d = (globbing d pat, d\<lparr>probed := probed d @ [ProbePattern pat]\<rparr>)"

text \<open>
  Modelled from the spec: \<^verbatim>\<open>util.Die(format, args...)\<close> terminates the process with
  the formatted message; \<open>Fatal\<close> carries that message. \<open>IndexOutOfRange\<close> is the
  run-time panic of a slice read past its length.
\<close>

datatype failure = Fatal string | IndexOutOfRange

section \<open>Selecting a backend\<close>

text \<open>The loop that appends every backend matching the language to \<^verbatim>\<open>filteredBackends\<close>.\<close>

fun filterBackends :: "LanguageBackend list \<Rightarrow> string \<Rightarrow> LanguageBackend list" where
  "filterBackends [] language = []"
| "filterBackends (b # backends) language =
     (if matchesLanguage b language then b # filterBackends backends language
      else filterBackends backends language)"

text \<open>
  First loop: the first backend whose specfile and lockfile both exist. Go's \<^verbatim>\<open>&&\<close>
  probes the lockfile only when the specfile exists.
\<close>

fun firstWithBoth :: "LanguageBackend list \<Rightarrow> disk \<Rightarrow> LanguageBackend option \<times> disk" where
  "firstWithBoth [] d = (None, d)"
| "firstWithBoth (b # backends) d =
     (case util_Exists (Specfile b) d of
        (False, d1) \<Rightarrow> firstWithBoth backends d1
      | (True, d1) \<Rightarrow>
          (case util_Exists (Lockfile b) d1 of
             (False, d2) \<Rightarrow> firstWithBoth backends d2
           | (True, d2) \<Rightarrow> (Some b, d2)))"

text \<open>
  Second loop: the first backend whose specfile or lockfile exists. Go's \<^verbatim>\<open>||\<close>
  probes the lockfile only when the specfile does not exist.
\<close>

fun firstWithEither :: "LanguageBackend list \<Rightarrow> disk \<Rightarrow> LanguageBackend option \<times> disk" where
  "firstWithEither [] d = (None, d)"
| "firstWithEither (b # backends) d =
     (case util_Exists (Specfile b) d of
        (True, d1) \<Rightarrow> (Some b, d1)
      | (False, d1) \<Rightarrow>
          (case util_Exists (Lockfile b) d1 of
             (True, d2) \<Rightarrow> (Some b, d2)
           | (False, d2) \<Rightarrow> firstWithEither backends d2))"

text \<open>Third loop, inner part: whether some pattern of one backend matches a file.\<close>

fun anyPattern :: "string list \<Rightarrow> disk \<Rightarrow> bool \<times> disk" where
  "anyPattern [] d = (False, d)"
| "anyPattern (p # patterns) d =
     (case util_PatternExists p d of
        (True, d1) \<Rightarrow> (True, d1)
      | (False, d1) \<Rightarrow> anyPattern patterns d1)"

fun firstWithPattern :: "LanguageBackend list \<Rightarrow> disk \<Rightarrow> LanguageBackend option \<times> disk" where
  "firstWithPattern [] d = (None, d)"
| "firstWithPattern (b # backends) d =
     (case anyPattern (FilenamePatterns b) d of
        (True, d1) \<Rightarrow> (Some b, d1)
      | (False, d1) \<Rightarrow> firstWithPattern backends d1)"

text \<open>
  Lines 101 to 123 of \<^verbatim>\<open>GetBackend\<close>: the three loops over \<^verbatim>\<open>backends\<close>, then the
  exit when no language was given, then \<^verbatim>\<open>backends[0]\<close>.
\<close>

definition autodetect ::
  "LanguageBackend list \<Rightarrow> string \<Rightarrow> disk \<Rightarrow> (failure + LanguageBackend) \<times> disk" where
  "autodetect backends language d =
     (case firstWithBoth backends d of
        (Some b, d1) \<Rightarrow> (Inr b, d1)
      | (None, d1) \<Rightarrow>
          (case firstWithEither backends d1 of
             (Some b, d2) \<Rightarrow> (Inr b, d2)
           | (None, d2) \<Rightarrow>
               (case firstWithPattern backends d2 of
                  (Some b, d3) \<Rightarrow> (Inr b, d3)
                | (None, d3) \<Rightarrow>
                    if language = [] then
                      (Inl (Fatal ''could not autodetect a language for your project''), d3)
                    else
                      (case backends of
                         [] \<Rightarrow> (Inl IndexOutOfRange, d3)
                       | b # _ \<Rightarrow> (Inr b, d3)))))"

text \<open>
  \<^verbatim>\<open>GetBackend(ctx, language)\<close> over the registry \<^verbatim>\<open>languageBackends\<close>. The tracing
  span has no part in the result and is left out.
\<close>

definition GetBackend ::
  "LanguageBackend list \<Rightarrow> string \<Rightarrow> disk \<Rightarrow> (failure + LanguageBackend) \<times> disk" where
  "GetBackend languageBackends language d =
     (if language \<noteq> [] then
        (case filterBackends languageBackends language of
           [] \<Rightarrow> (Inl (Fatal (''no such language: '' @ language)), d)
         | [b] \<Rightarrow> (Inr b, d)
         | filteredBackends \<Rightarrow> autodetect filteredBackends language d)
      else autodetect languageBackends language d)"

section \<open>The evidence of a backend, in the words of the specification\<close>

text \<open>
  Strong evidence: the specfile and the lockfile both exist. Partial evidence: one of
  them exists. Weak evidence: some filename pattern matches an existing file.
\<close>

definition bothExist :: "disk \<Rightarrow> LanguageBackend \<Rightarrow> bool" where
  "bothExist d b = (existing d (Specfile b) \<and> existing d (Lockfile b))"

definition eitherExists :: "disk \<Rightarrow> LanguageBackend \<Rightarrow> bool" where
  "eitherExists d b = (existing d (Specfile b) \<or> existing d (Lockfile b))"

definition patternHit :: "disk \<Rightarrow> LanguageBackend \<Rightarrow> bool" where
  "patternHit d b = (\<exists>p \<in> set (FilenamePatterns b). globbing d p)"

text \<open>Two states of the file system answer every probe alike.\<close>

definition sameSnapshot :: "disk \<Rightarrow> disk \<Rightarrow> bool" where
  "sameSnapshot d d' = (existing d' = existing d \<and> globbing d' = globbing d)"

text \<open>
  The three passes over a working list: the first backend with strong evidence,
  otherwise the first with partial evidence, otherwise the first with weak evidence.
\<close>

definition detected :: "disk \<Rightarrow> LanguageBackend list \<Rightarrow> LanguageBackend option" where
  "detected d backends =
     (case find (bothExist d) backends of
        Some b \<Rightarrow> Some b
      | None \<Rightarrow>
          (case find (eitherExists d) backends of
             Some b \<Rightarrow> Some b
           | None \<Rightarrow> find (patternHit d) backends))"

section \<open>Sample descriptors and file systems\<close>

text \<open>
  Descriptors in the style of the registered backends, and a file system given by the
  paths that exist and the patterns that match; no probe has been made on it yet.
  They are the concrete inputs at which the theorems below are evaluated.
\<close>

definition samplePoetry :: LanguageBackend where
  "samplePoetry = \<lparr>Name = ''python-poetry'', Alias = ''python-python3-poetry'',
     Specfile = ''pyproject.toml'', Lockfile = ''poetry.lock'', FilenamePatterns = [''*.py'']\<rparr>"

definition sampleYarn :: LanguageBackend where
  "sampleYarn = \<lparr>Name = ''nodejs-yarn'', Alias = [],
     Specfile = ''package.json'', Lockfile = ''yarn.lock'',
     FilenamePatterns = [''*.js'', ''*.ts'']\<rparr>"

definition sampleNodejs :: LanguageBackend where
  "sampleNodejs = \<lparr>Name = ''nodejs'', Alias = [],
     Specfile = ''package.json'', Lockfile = ''package-lock.json'',
     FilenamePatterns = [''*.js'']\<rparr>"

definition diskWith :: "string list \<Rightarrow> string list \<Rightarrow> disk" where
  "diskWith files hits =
     \<lparr>existing = (\<lambda>path. path \<in> set files), globbing = (\<lambda>pat. pat \<in> set hits), probed = []\<rparr>"

section \<open>The model computes what the specification describes\<close>

lemma strings_Split_Nil: "strings_Split [] sep = [[]]"
  by (simp add: strings_Split.simps)

lemma strings_Split_Cons:
  "strings_Split (c # cs) sep =
     (if c = sep then [] # strings_Split cs sep
      else (case strings_Split cs sep of [] \<Rightarrow> [[c]] | p # ps \<Rightarrow> (c # p) # ps))"
proof (cases "c = sep")
  case True
  then show ?thesis
    by (subst strings_Split.simps) simp
next
  case False
  show ?thesis
  proof (cases "dropWhile (\<lambda>x. x \<noteq> sep) cs")
    case Nil
    with False show ?thesis
      by (simp add: strings_Split.simps [of "c # cs"] strings_Split.simps [of cs]
            del: dropWhile_eq_Nil_conv)
  next
    case (Cons x rest)
    with False show ?thesis
      by (simp add: strings_Split.simps [of "c # cs"] strings_Split.simps [of cs])
  qed
qed

lemma lookupPart_storeParts:
  "lookupPart (storeParts ps m) k \<longleftrightarrow> k \<in> set ps \<or> lookupPart m k"
  by (induction ps arbitrary: m) (auto simp: lookupPart_def)

lemma lookupPart_parts: "lookupPart (storeParts ps Map.empty) k \<longleftrightarrow> k \<in> set ps"
  by (simp add: lookupPart_storeParts) (simp add: lookupPart_def)

lemma missingPart_iff: "missingPart m ls \<longleftrightarrow> (\<exists>l \<in> set ls. \<not> lookupPart m l)"
  by (induction ls) auto

lemma matchesLanguage_iff:
  "matchesLanguage b language \<longleftrightarrow>
     set (strings_Split language CHR ''-'') \<subseteq> set (strings_Split (Name b) CHR ''-'') \<or>
     set (strings_Split language CHR ''-'') \<subseteq> set (strings_Split (Alias b) CHR ''-'')"
  by (auto simp: matchesLanguage_def Let_def missingPart_iff lookupPart_parts)

lemma filterBackends_filter:
  "filterBackends backends language = filter (\<lambda>b. matchesLanguage b language) backends"
  by (induction backends) auto

lemma firstWithBoth_spec:
  "fst (firstWithBoth backends d) = find (bothExist d) backends \<and>
   sameSnapshot d (snd (firstWithBoth backends d))"
proof (induction backends arbitrary: d)
  case Nil
  show ?case by (simp add: sameSnapshot_def)
next
  case (Cons b backends)
  let ?d1 = "d\<lparr>probed := probed d @ [ProbeExists (Specfile b)]\<rparr>"
  let ?d2 = "?d1\<lparr>probed := probed ?d1 @ [ProbeExists (Lockfile b)]\<rparr>"
  have both: "bothExist ?d1 = bothExist d" "bothExist ?d2 = bothExist d"
    by (simp_all add: bothExist_def fun_eq_iff)
  from Cons.IH [of ?d1] Cons.IH [of ?d2] show ?case
    by (auto simp: util_Exists_def both sameSnapshot_def bothExist_def split: bool.splits)
qed

lemma sameSnapshot_refl: "sameSnapshot d d"
  by (simp add: sameSnapshot_def)

lemma sameSnapshot_trans: "sameSnapshot d d1 \<Longrightarrow> sameSnapshot d1 d2 \<Longrightarrow> sameSnapshot d d2"
  by (simp add: sameSnapshot_def)

lemma sameSnapshot_evidence:
  assumes "sameSnapshot d d'"
  shows "bothExist d' = bothExist d" and "eitherExists d' = eitherExists d"
    and "patternHit d' = patternHit d"
  using assms by (simp_all add: sameSnapshot_def bothExist_def eitherExists_def patternHit_def fun_eq_iff)

lemma sameSnapshot_detected: "sameSnapshot d d' \<Longrightarrow> detected d' backends = detected d backends"
  by (simp add: detected_def sameSnapshot_evidence cong: option.case_cong)

lemma firstWithEither_spec:
  "fst (firstWithEither backends d) = find (eitherExists d) backends \<and>
   sameSnapshot d (snd (firstWithEither backends d))"
proof (induction backends arbitrary: d)
  case Nil
  show ?case by (simp add: sameSnapshot_def)
next
  case (Cons b backends)
  let ?d1 = "d\<lparr>probed := probed d @ [ProbeExists (Specfile b)]\<rparr>"
  let ?d2 = "?d1\<lparr>probed := probed ?d1 @ [ProbeExists (Lockfile b)]\<rparr>"
  have either: "eitherExists ?d2 = eitherExists d"
    by (simp add: eitherExists_def fun_eq_iff)
  from Cons.IH [of ?d2] show ?case
    by (auto simp: util_Exists_def either sameSnapshot_def eitherExists_def split: bool.splits)
qed

lemma anyPattern_spec:
  "fst (anyPattern patterns d) = (\<exists>p \<in> set patterns. globbing d p) \<and>
   sameSnapshot d (snd (anyPattern patterns d))"
proof (induction patterns arbitrary: d)
  case Nil
  show ?case by (simp add: sameSnapshot_def)
next
  case (Cons p patterns)
  from Cons.IH [of "d\<lparr>probed := probed d @ [ProbePattern p]\<rparr>"] show ?case
    by (auto simp: util_PatternExists_def sameSnapshot_def split: bool.splits)
qed

lemma firstWithPattern_spec:
  "fst (firstWithPattern backends d) = find (patternHit d) backends \<and>
   sameSnapshot d (snd (firstWithPattern backends d))"
proof (induction backends arbitrary: d)
  case Nil
  show ?case by (simp add: sameSnapshot_def)
next
  case (Cons b backends)
  obtain hit d1 where inner: "anyPattern (FilenamePatterns b) d = (hit, d1)"
    by (cases "anyPattern (FilenamePatterns b) d")
  from anyPattern_spec [of "FilenamePatterns b" d] inner
  have hit: "hit = patternHit d b" and same: "sameSnapshot d d1"
    by (simp_all add: patternHit_def)
  show ?case
  proof (cases hit)
    case True
    with inner hit same show ?thesis by simp
  next
    case False
    from Cons.IH [of d1] same have
      "fst (firstWithPattern backends d1) = find (patternHit d) backends"
      "sameSnapshot d (snd (firstWithPattern backends d1))"
      by (auto simp: sameSnapshot_evidence intro: sameSnapshot_trans)
    with False inner hit show ?thesis by simp
  qed
qed

lemma autodetect_spec:
  "fst (autodetect backends language d) =
     (case detected d backends of
        Some b \<Rightarrow> Inr b
      | None \<Rightarrow>
          if language = [] then
            Inl (Fatal ''could not autodetect a language for your project'')
          else (case backends of [] \<Rightarrow> Inl IndexOutOfRange | b # _ \<Rightarrow> Inr b)) \<and>
   sameSnapshot d (snd (autodetect backends language d))"
proof -
  obtain r1 d1 where p1: "firstWithBoth backends d = (r1, d1)"
    by (cases "firstWithBoth backends d")
  obtain r2 d2 where p2: "firstWithEither backends d1 = (r2, d2)"
    by (cases "firstWithEither backends d1")
  obtain r3 d3 where p3: "firstWithPattern backends d2 = (r3, d3)"
    by (cases "firstWithPattern backends d2")
  from firstWithBoth_spec [of backends d] p1
  have r1: "r1 = find (bothExist d) backends" and s1: "sameSnapshot d d1"
    by simp_all
  from firstWithEither_spec [of backends d1] p2 s1
  have r2: "r2 = find (eitherExists d) backends" and s2: "sameSnapshot d d2"
    by (auto simp: sameSnapshot_evidence intro: sameSnapshot_trans)
  from firstWithPattern_spec [of backends d2] p3 s2
  have r3: "r3 = find (patternHit d) backends" and s3: "sameSnapshot d d3"
    by (auto simp: sameSnapshot_evidence intro: sameSnapshot_trans)
  from p1 p2 p3 s1 s2 s3 show ?thesis
    unfolding autodetect_def detected_def r1 [symmetric] r2 [symmetric] r3 [symmetric]
    by (auto split: option.splits list.splits)
qed

lemma GetBackend_spec:
  "fst (GetBackend languageBackends language d) =
     (if language = [] then
        (case detected d languageBackends of
           Some b \<Rightarrow> Inr b
         | None \<Rightarrow> Inl (Fatal ''could not autodetect a language for your project''))
      else
        (case filter (\<lambda>b. matchesLanguage b language) languageBackends of
           [] \<Rightarrow> Inl (Fatal (''no such language: '' @ language))
         | [b] \<Rightarrow> Inr b
         | b # b' # rest \<Rightarrow>
             (case detected d (b # b' # rest) of Some c \<Rightarrow> Inr c | None \<Rightarrow> Inr b))) \<and>
   sameSnapshot d (snd (GetBackend languageBackends language d))"
  by (simp add: GetBackend_def filterBackends_filter autodetect_spec sameSnapshot_refl
        split: list.splits)

lemma strings_Split_not_Nil: "strings_Split s sep \<noteq> []"
  by (subst strings_Split.simps) (simp split: list.splits)

lemma strings_Split_all_empty:
  "set (strings_Split s sep) \<subseteq> {[]} \<longleftrightarrow> set s \<subseteq> {sep}"
proof (induction s)
  case Nil
  show ?case by (simp add: strings_Split_Nil)
next
  case (Cons c cs)
  show ?case
  proof (cases "c = sep")
    case True
    with Cons.IH show ?thesis by (simp add: strings_Split_Cons)
  next
    case False
    obtain p ps where "strings_Split cs sep = p # ps"
      using strings_Split_not_Nil [of cs sep] by (cases "strings_Split cs sep") auto
    with False show ?thesis by (simp add: strings_Split_Cons)
  qed
qed

lemma strings_Split_no_sep: "p \<in> set (strings_Split s sep) \<Longrightarrow> sep \<notin> set p"
proof (induction s arbitrary: p)
  case Nil
  then show ?case by (simp add: strings_Split_Nil)
next
  case (Cons c cs)
  obtain q qs where split: "strings_Split cs sep = q # qs"
    using strings_Split_not_Nil [of cs sep] by (cases "strings_Split cs sep") auto
  with Cons show ?case
    by (auto simp: strings_Split_Cons split: if_splits)
qed

lemma strings_Join_Split: "strings_Join (strings_Split s sep) sep = s"
proof (induction s)
  case Nil
  show ?case by (simp add: strings_Split_Nil)
next
  case (Cons c cs)
  obtain q qs where split: "strings_Split cs sep = q # qs"
    using strings_Split_not_Nil [of cs sep] by (cases "strings_Split cs sep") auto
  with Cons show ?case
    by (cases qs) (auto simp: strings_Split_Cons)
qed

lemma detected_Some_mem: "detected d backends = Some b \<Longrightarrow> b \<in> set backends"
  by (auto simp: detected_def find_Some_iff split: option.splits)

lemma detected_None_iff:
  "detected d backends = None \<longleftrightarrow>
     (\<forall>b \<in> set backends. \<not> existing d (Specfile b) \<and> \<not> existing d (Lockfile b) \<and> \<not> patternHit d b)"
proof -
  have "detected d backends = None \<longleftrightarrow>
      find (bothExist d) backends = None \<and> find (eitherExists d) backends = None \<and>
      find (patternHit d) backends = None"
    by (auto simp: detected_def split: option.splits)
  also have "\<dots> \<longleftrightarrow>
      (\<forall>b \<in> set backends. \<not> bothExist d b \<and> \<not> eitherExists d b \<and> \<not> patternHit d b)"
    by (auto simp: find_None_iff)
  also have "\<dots> \<longleftrightarrow>
      (\<forall>b \<in> set backends.
         \<not> existing d (Specfile b) \<and> \<not> existing d (Lockfile b) \<and> \<not> patternHit d b)"
    by (auto simp: bothExist_def eitherExists_def)
  finally show ?thesis .
qed

lemma find_first:
  "\<forall>x \<in> set pre. \<not> P x \<Longrightarrow> P y \<Longrightarrow> find P (pre @ y # post) = Some y"
  by (induction pre) auto

lemma find_at_or_before:
  "P y \<Longrightarrow> \<exists>c \<in> set (pre @ [y]). P c \<and> find P (pre @ y # post) = Some c"
  by (induction pre) auto

lemma filtered_matches:
  "b \<in> set (filterBackends backends language) \<longleftrightarrow> b \<in> set backends \<and> matchesLanguage b language"
  by (simp add: filterBackends_filter)

lemma matches_own_name: "matchesLanguage b (Name b)"
  by (simp add: matchesLanguage_iff)

lemma GetBackend_in_filtered:
  assumes "language \<noteq> []" and "b \<in> set languageBackends" and "matchesLanguage b language"
  shows "\<exists>c \<in> set (filterBackends languageBackends language).
           fst (GetBackend languageBackends language d) = Inr c"
proof -
  let ?filtered = "filter (\<lambda>b. matchesLanguage b language) languageBackends"
  from assms(2,3) have "b \<in> set ?filtered"
    by simp
  then obtain c rest where filtered: "?filtered = c # rest"
    by (cases ?filtered) auto
  show ?thesis
  proof (cases rest)
    case Nil
    with filtered assms(1) show ?thesis
      by (simp add: GetBackend_spec filterBackends_filter)
  next
    case (Cons c' rest')
    show ?thesis
    proof (cases "detected d (c # c' # rest')")
      case None
      with Cons filtered assms(1) show ?thesis
        by (simp add: GetBackend_spec filterBackends_filter)
    next
      case (Some c'')
      then have "c'' \<in> set (c # c' # rest')"
        by (rule detected_Some_mem)
      with Some Cons filtered assms(1) show ?thesis
        by (simp add: GetBackend_spec filterBackends_filter)
    qed
  qed
qed

text \<open>The equations that evaluate the model on the sample inputs.\<close>

lemmas sample_eval = GetBackend_def autodetect_def util_Exists_def util_PatternExists_def
  matchesLanguage_def Let_def lookupPart_def strings_Split_Nil strings_Split_Cons diskWith_def
  samplePoetry_def sampleYarn_def sampleNodejs_def bothExist_def eitherExists_def patternHit_def
  sameSnapshot_def

section \<open>The language matcher: claims\<close>

text \<open>
  Claim C7. The matcher is exact membership of hyphen-separated parts: a backend matches
  a language exactly when every part of the language is a part of the backend's name or,
  failing that, every part of the language is a part of its alias. A backend named
  \<open>python-poetry\<close> matches \<open>python-poetry\<close>; it matches \<open>python3\<close> exactly when its alias
  has the part \<open>python3\<close>; with the alias \<open>python-python3-poetry\<close> it matches
  \<open>python3-poetry\<close>; and the name part \<open>python321\<close> does not make a backend match
  \<open>python3\<close> (only an alias part \<open>python3\<close> does).
\<close>

theorem matcher_part_membership:
  "(matchesLanguage b language \<longleftrightarrow>
      set (strings_Split language CHR ''-'') \<subseteq> set (strings_Split (Name b) CHR ''-'') \<or>
      set (strings_Split language CHR ''-'') \<subseteq> set (strings_Split (Alias b) CHR ''-'')) \<and>
   matchesLanguage (b\<lparr>Name := ''python-poetry''\<rparr>) ''python-poetry'' \<and>
   (matchesLanguage (b\<lparr>Name := ''python-poetry''\<rparr>) ''python3'' \<longleftrightarrow>
      ''python3'' \<in> set (strings_Split (Alias b) CHR ''-'')) \<and>
   matchesLanguage (b\<lparr>Name := ''python-poetry'', Alias := ''python-python3-poetry''\<rparr>)
     ''python3-poetry'' \<and>
   (matchesLanguage (b\<lparr>Name := ''python321''\<rparr>) ''python3'' \<longleftrightarrow>
      ''python3'' \<in> set (strings_Split (Alias b) CHR ''-''))"
proof -
  have general: "matchesLanguage b language \<longleftrightarrow>
      set (strings_Split language CHR ''-'') \<subseteq> set (strings_Split (Name b) CHR ''-'') \<or>
      set (strings_Split language CHR ''-'') \<subseteq> set (strings_Split (Alias b) CHR ''-'')"
    by (rule matchesLanguage_iff)
  have token: "strings_Split ''python3'' CHR ''-'' = [''python3'']"
    by (simp add: strings_Split_Nil strings_Split_Cons)
  have name: "strings_Split ''python-poetry'' CHR ''-'' = [''python'', ''poetry'']"
    by (simp add: strings_Split_Nil strings_Split_Cons)
  have long: "strings_Split ''python321'' CHR ''-'' = [''python321'']"
    by (simp add: strings_Split_Nil strings_Split_Cons)
  have aliasParts: "strings_Split ''python-python3-poetry'' CHR ''-'' = [''python'', ''python3'', ''poetry'']"
    by (simp add: strings_Split_Nil strings_Split_Cons)
  have both: "strings_Split ''python3-poetry'' CHR ''-'' = [''python3'', ''poetry'']"
    by (simp add: strings_Split_Nil strings_Split_Cons)
  have same: "matchesLanguage (b\<lparr>Name := ''python-poetry''\<rparr>) ''python-poetry''"
    by (simp add: matchesLanguage_iff)
  have bare: "matchesLanguage (b\<lparr>Name := ''python-poetry''\<rparr>) ''python3'' \<longleftrightarrow>
      ''python3'' \<in> set (strings_Split (Alias b) CHR ''-'')"
    by (simp add: matchesLanguage_iff token name)
  have aliased:
    "matchesLanguage (b\<lparr>Name := ''python-poetry'', Alias := ''python-python3-poetry''\<rparr>)
       ''python3-poetry''"
    by (simp add: matchesLanguage_iff aliasParts both)
  have longer: "matchesLanguage (b\<lparr>Name := ''python321''\<rparr>) ''python3'' \<longleftrightarrow>
      ''python3'' \<in> set (strings_Split (Alias b) CHR ''-'')"
    by (simp add: matchesLanguage_iff token long)
  from general same bare aliased longer show ?thesis
    by blast
qed

theorem matcher_part_membership_witness:
  "matchesLanguage samplePoetry ''python3-poetry'' \<and>
   \<not> matchesLanguage (samplePoetry\<lparr>Name := ''python321''\<rparr>) ''python2'' \<and>
   \<not> matchesLanguage (sampleYarn\<lparr>Name := ''python321''\<rparr>) ''python3''"
  using matcher_part_membership [of samplePoetry "''python3-poetry''"]
    matcher_part_membership [of "samplePoetry\<lparr>Name := ''python321''\<rparr>" "''python2''"]
    matcher_part_membership [of sampleYarn]
  by (simp add: samplePoetry_def sampleYarn_def strings_Split_Nil strings_Split_Cons)

text \<open>
  Claim C8, as stated, fails: the split of an empty alias is the one-element list
  holding the empty string, not the empty list, so the language \<open>-\<close>, whose two
  parts are empty and are not parts of the name \<open>nodejs-yarn\<close>, matches a backend
  with an empty alias through the alias step.
\<close>

theorem empty_alias_counterexample:
  "Alias sampleYarn = [] \<and> ''-'' \<noteq> [] \<and>
   [] \<in> set (strings_Split ''-'' CHR ''-'') \<and>
   [] \<notin> set (strings_Split (Name sampleYarn) CHR ''-'') \<and>
   matchesLanguage sampleYarn ''-''"
  by (simp add: sample_eval)

text \<open>
  Claim C8, amended. For a backend with an empty alias and a language with a part that
  is not a part of the backend's name, the matcher answers true exactly when the language
  consists of hyphens only (every part of it is empty). So a language with a non-empty
  part never matches through an empty alias.
\<close>

theorem empty_alias_matches_only_hyphens:
  assumes "Alias b = []"
      and "\<not> set (strings_Split language CHR ''-'') \<subseteq> set (strings_Split (Name b) CHR ''-'')"
  shows "matchesLanguage b language \<longleftrightarrow> set language \<subseteq> {CHR ''-''}"
  using assms
  by (simp add: matchesLanguage_iff strings_Split_Nil strings_Split_all_empty)

theorem empty_alias_matches_only_hyphens_witness:
  "\<not> matchesLanguage sampleYarn ''nodejs-npm'' \<and> matchesLanguage sampleYarn ''--''"
  using empty_alias_matches_only_hyphens [of sampleYarn "''nodejs-npm''"]
    empty_alias_matches_only_hyphens [of sampleYarn "''--''"]
  by (simp add: sampleYarn_def strings_Split_Nil strings_Split_Cons)

section \<open>The resolver: claims\<close>

text \<open>
  Claim C1, as stated, fails in its last clause: in the registry of the three sample
  backends the first has only a pattern hit and the third, later, has its specfile
  and lockfile, but the second has both files too, so the first pass returns the
  second backend and not the third.
\<close>

theorem autodetection_three_passes_counterexample:
  "[samplePoetry, sampleNodejs, sampleYarn] =
     [] @ samplePoetry # [sampleNodejs] @ sampleYarn # [] \<and>
   patternHit (diskWith [''package.json'', ''yarn.lock'', ''package-lock.json''] [''*.py''])
     samplePoetry \<and>
   \<not> eitherExists (diskWith [''package.json'', ''yarn.lock'', ''package-lock.json''] [''*.py''])
     samplePoetry \<and>
   bothExist (diskWith [''package.json'', ''yarn.lock'', ''package-lock.json''] [''*.py''])
     sampleYarn \<and>
   fst (GetBackend [samplePoetry, sampleNodejs, sampleYarn] []
         (diskWith [''package.json'', ''yarn.lock'', ''package-lock.json''] [''*.py''])) =
     Inr sampleNodejs \<and>
   sampleNodejs \<noteq> sampleYarn"
  by (simp add: sample_eval)

text \<open>
  Claim C1, amended. Autodetection runs three passes in order over the working list,
  which is the whole registry when no language is given and the filtered list when the
  language matched more than one backend. The first pass returns the first backend whose
  specfile and lockfile both exist; when there is none, the second returns the first
  whose specfile or lockfile exists; when there is none either, the third returns the
  first with a filename pattern that matches an existing file. An earlier pass wins
  whatever the positions in the registry: when \<open>D1\<close> has only a pattern hit and a later
  \<open>D2\<close> has its specfile and lockfile, resolving without a language never returns
  \<open>D1\<close> but a backend with both files, and it returns \<open>D2\<close> when no backend before
  \<open>D2\<close> has both files.
\<close>

theorem autodetection_three_passes:
  assumes "language = [] \<or> 2 \<le> length (filterBackends languageBackends language)"
      and "working = (if language = [] then languageBackends
                      else filterBackends languageBackends language)"
  shows "(find (bothExist d) working = Some b \<longrightarrow>
            fst (GetBackend languageBackends language d) = Inr b) \<and>
         (find (bothExist d) working = None \<and> find (eitherExists d) working = Some b \<longrightarrow>
            fst (GetBackend languageBackends language d) = Inr b) \<and>
         (find (bothExist d) working = None \<and> find (eitherExists d) working = None \<and>
          find (patternHit d) working = Some b \<longrightarrow>
            fst (GetBackend languageBackends language d) = Inr b) \<and>
         (language = [] \<and> languageBackends = pre @ D1 # mid @ D2 # post \<and>
          patternHit d D1 \<and> \<not> eitherExists d D1 \<and> bothExist d D2 \<longrightarrow>
            (\<exists>c \<in> set languageBackends. bothExist d c \<and> c \<noteq> D1 \<and>
               fst (GetBackend languageBackends language d) = Inr c) \<and>
            ((\<forall>x \<in> set (pre @ mid). \<not> bothExist d x) \<longrightarrow>
               fst (GetBackend languageBackends language d) = Inr D2))"
proof -
  have result: "fst (GetBackend languageBackends language d) =
      (case detected d working of
         Some c \<Rightarrow> Inr c
       | None \<Rightarrow>
           if language = [] then
             Inl (Fatal ''could not autodetect a language for your project'')
           else Inr (hd working))"
  proof (cases "language = []")
    case True
    with assms(2) show ?thesis
      by (simp add: GetBackend_spec)
  next
    case False
    with assms(1) have "2 \<le> length (filter (\<lambda>c. matchesLanguage c language) languageBackends)"
      by (simp add: filterBackends_filter)
    then obtain c c' rest where
      "filter (\<lambda>c. matchesLanguage c language) languageBackends = c # c' # rest"
      by (cases "filter (\<lambda>c. matchesLanguage c language) languageBackends" rule: list.exhaust;
          simp; (cases "tl (filter (\<lambda>c. matchesLanguage c language) languageBackends)"; simp))
    with False assms(2) show ?thesis
      by (simp add: GetBackend_spec filterBackends_filter split: option.splits)
  qed
  have passA: "find (bothExist d) working = Some b \<longrightarrow>
      fst (GetBackend languageBackends language d) = Inr b"
    by (simp add: result detected_def)
  have passB: "find (bothExist d) working = None \<and> find (eitherExists d) working = Some b \<longrightarrow>
      fst (GetBackend languageBackends language d) = Inr b"
    by (simp add: result detected_def)
  have passC: "find (bothExist d) working = None \<and> find (eitherExists d) working = None \<and>
      find (patternHit d) working = Some b \<longrightarrow>
      fst (GetBackend languageBackends language d) = Inr b"
    by (simp add: result detected_def)
  have strong_wins: "language = [] \<and> languageBackends = pre @ D1 # mid @ D2 # post \<and>
      patternHit d D1 \<and> \<not> eitherExists d D1 \<and> bothExist d D2 \<longrightarrow>
        (\<exists>c \<in> set languageBackends. bothExist d c \<and> c \<noteq> D1 \<and>
           fst (GetBackend languageBackends language d) = Inr c) \<and>
        ((\<forall>x \<in> set (pre @ mid). \<not> bothExist d x) \<longrightarrow>
           fst (GetBackend languageBackends language d) = Inr D2)"
  proof (intro impI, elim conjE)
    assume empty: "language = []"
      and reg: "languageBackends = pre @ D1 # mid @ D2 # post"
      and weak: "\<not> eitherExists d D1"
      and strong: "bothExist d D2"
    from weak have notD1: "\<not> bothExist d D1"
      by (simp add: bothExist_def eitherExists_def)
    from find_at_or_before [of "bothExist d" D2 "pre @ D1 # mid" post, OF strong] reg
    obtain c where c: "c \<in> set languageBackends" "bothExist d c"
        "find (bothExist d) languageBackends = Some c"
      by auto
    from c(2) notD1 have "c \<noteq> D1"
      by auto
    with c empty have first: "\<exists>c \<in> set languageBackends. bothExist d c \<and> c \<noteq> D1 \<and>
        fst (GetBackend languageBackends language d) = Inr c"
      by (auto simp: GetBackend_spec detected_def)
    have second: "fst (GetBackend languageBackends language d) = Inr D2"
      if others: "\<forall>x \<in> set (pre @ mid). \<not> bothExist d x"
    proof -
      from others notD1 have "\<forall>x \<in> set (pre @ D1 # mid). \<not> bothExist d x"
        by auto
      from find_first [OF this strong, of post] reg
      have "find (bothExist d) languageBackends = Some D2"
        by simp
      with empty show ?thesis
        by (simp add: GetBackend_spec detected_def)
    qed
    from first second show "(\<exists>c \<in> set languageBackends. bothExist d c \<and> c \<noteq> D1 \<and>
           fst (GetBackend languageBackends language d) = Inr c) \<and>
        ((\<forall>x \<in> set (pre @ mid). \<not> bothExist d x) \<longrightarrow>
           fst (GetBackend languageBackends language d) = Inr D2)"
      by blast
  qed
  from passA passB passC strong_wins show ?thesis
    by (intro conjI)
qed

theorem autodetection_three_passes_witness:
  "fst (GetBackend [samplePoetry, sampleNodejs, sampleYarn] []
         (diskWith [''package.json'', ''yarn.lock''] [''*.py''])) = Inr sampleYarn \<and>
   patternHit (diskWith [''package.json'', ''yarn.lock''] [''*.py'']) samplePoetry \<and>
   eitherExists (diskWith [''package.json'', ''yarn.lock''] [''*.py'']) sampleNodejs \<and>
   filterBackends [samplePoetry, sampleNodejs, sampleYarn] ''nodejs'' =
     [sampleNodejs, sampleYarn] \<and>
   fst (GetBackend [samplePoetry, sampleNodejs, sampleYarn] ''nodejs''
         (diskWith [''pyproject.toml'', ''poetry.lock'', ''yarn.lock''] [''*.js''])) =
     Inr sampleYarn"
proof -
  let ?d = "diskWith [''package.json'', ''yarn.lock''] [''*.py'']"
  let ?e = "diskWith [''pyproject.toml'', ''poetry.lock'', ''yarn.lock''] [''*.js'']"
  let ?reg = "[samplePoetry, sampleNodejs, sampleYarn]"
  have h1: "([]::string) = [] \<or> 2 \<le> length (filterBackends ?reg [])"
    by simp
  have h2: "?reg = (if ([]::string) = [] then ?reg else filterBackends ?reg [])"
    by simp
  have pre: "([]::string) = [] \<and>
      ?reg = [] @ samplePoetry # [sampleNodejs] @ sampleYarn # [] \<and>
      patternHit ?d samplePoetry \<and> \<not> eitherExists ?d samplePoetry \<and> bothExist ?d sampleYarn"
    by (simp add: sample_eval)
  have first: "\<forall>x \<in> set ([] @ [sampleNodejs]). \<not> bothExist ?d x"
    by (simp add: sample_eval)
  from autodetection_three_passes [OF h1 h2, of ?d _ "[]" samplePoetry "[sampleNodejs]" sampleYarn "[]"]
    pre first
  have whole: "fst (GetBackend ?reg [] ?d) = Inr sampleYarn"
    by blast
  have evidence: "patternHit ?d samplePoetry" "eitherExists ?d sampleNodejs"
    by (simp_all add: sample_eval)
  have filtered: "filterBackends ?reg ''nodejs'' = [sampleNodejs, sampleYarn]"
    by (simp add: sample_eval)
  have k1: "''nodejs'' = [] \<or> 2 \<le> length (filterBackends ?reg ''nodejs'')"
    unfolding filtered by simp
  have k2: "[sampleNodejs, sampleYarn] =
      (if ''nodejs'' = [] then ?reg else filterBackends ?reg ''nodejs'')"
    unfolding filtered by simp
  have passB: "find (bothExist ?e) [sampleNodejs, sampleYarn] = None \<and>
      find (eitherExists ?e) [sampleNodejs, sampleYarn] = Some sampleYarn"
    by (simp add: sample_eval)
  from autodetection_three_passes [OF k1 k2, where d = ?e and b = sampleYarn] passB
  have narrowed: "fst (GetBackend ?reg ''nodejs'' ?e) = Inr sampleYarn"
    by blast
  from whole evidence filtered narrowed show ?thesis
    by simp
qed

text \<open>
  Claim C2. \<open>GetBackend\<close> fails exactly in two cases: a language is given and no
  registered backend matches it, and then the message is \<open>no such language: \<close> followed
  by the language; or no language is given and no backend has its specfile, its lockfile
  or a pattern hit, and then the message is that no language could be autodetected.
  There is no other failure (the read of \<open>backends[0]\<close> never goes out of range), and
  in every other case the result is a backend of the registry.
\<close>

theorem failure_paths:
  "(fst (GetBackend languageBackends language d) = Inl e \<longleftrightarrow>
      language \<noteq> [] \<and> (\<forall>b \<in> set languageBackends. \<not> matchesLanguage b language) \<and>
        e = Fatal (''no such language: '' @ language) \<or>
      language = [] \<and>
        (\<forall>b \<in> set languageBackends.
           \<not> existing d (Specfile b) \<and> \<not> existing d (Lockfile b) \<and> \<not> patternHit d b) \<and>
        e = Fatal ''could not autodetect a language for your project'') \<and>
   ((\<exists>e'. fst (GetBackend languageBackends language d) = Inl e') \<or>
    (\<exists>b \<in> set languageBackends. fst (GetBackend languageBackends language d) = Inr b))"
proof (cases "language = []")
  case True
  show ?thesis
  proof (cases "detected d languageBackends")
    case None
    with True show ?thesis
      using detected_None_iff [of d languageBackends]
      by (auto simp: GetBackend_spec)
  next
    case (Some c)
    with True show ?thesis
      using detected_None_iff [of d languageBackends] detected_Some_mem [of d languageBackends c]
      by (auto simp: GetBackend_spec)
  qed
next
  case False
  let ?filtered = "filter (\<lambda>b. matchesLanguage b language) languageBackends"
  have none: "?filtered = [] \<longleftrightarrow> (\<forall>b \<in> set languageBackends. \<not> matchesLanguage b language)"
    by (simp add: filter_empty_conv)
  show ?thesis
  proof (cases ?filtered)
    case Nil
    with False none show ?thesis
      by (auto simp: GetBackend_spec)
  next
    case (Cons c rest)
    then have mem: "set (c # rest) \<subseteq> set languageBackends"
      by (metis filter_is_subset)
    from Cons none have some: "\<not> (\<forall>b \<in> set languageBackends. \<not> matchesLanguage b language)"
      by simp
    show ?thesis
    proof (cases rest)
      case Nil
      with Cons False some mem show ?thesis
        by (auto simp: GetBackend_spec)
    next
      case (Cons c' rest')
      show ?thesis
      proof (cases "detected d (c # c' # rest')")
        case None
        with Cons \<open>?filtered = c # rest\<close> False some mem show ?thesis
          by (auto simp: GetBackend_spec)
      next
        case (Some c'')
        then have "c'' \<in> set (c # c' # rest')"
          by (rule detected_Some_mem)
        with Some Cons \<open>?filtered = c # rest\<close> False some mem show ?thesis
          by (auto simp: GetBackend_spec)
      qed
    qed
  qed
qed

theorem failure_paths_witness:
  "fst (GetBackend [samplePoetry, sampleYarn] ''ruby'' (diskWith [''poetry.lock''] [])) =
     Inl (Fatal ''no such language: ruby'') \<and>
   fst (GetBackend [samplePoetry, sampleYarn] [] (diskWith [''Gemfile''] [''*.rb''])) =
     Inl (Fatal ''could not autodetect a language for your project'') \<and>
   fst (GetBackend [samplePoetry, sampleYarn] [] (diskWith [''Gemfile''] [''*.ts''])) =
     Inr sampleYarn"
proof -
  have "\<forall>b \<in> set [samplePoetry, sampleYarn]. \<not> matchesLanguage b ''ruby''"
    by (simp add: sample_eval)
  with failure_paths [of "[samplePoetry, sampleYarn]" "''ruby''" "diskWith [''poetry.lock''] []"
      "Fatal ''no such language: ruby''"]
  have unknown: "fst (GetBackend [samplePoetry, sampleYarn] ''ruby'' (diskWith [''poetry.lock''] [])) =
      Inl (Fatal ''no such language: ruby'')"
    by simp
  have "\<forall>b \<in> set [samplePoetry, sampleYarn].
      \<not> existing (diskWith [''Gemfile''] [''*.rb'']) (Specfile b) \<and>
      \<not> existing (diskWith [''Gemfile''] [''*.rb'']) (Lockfile b) \<and>
      \<not> patternHit (diskWith [''Gemfile''] [''*.rb'']) b"
    by (simp add: sample_eval)
  with failure_paths [of "[samplePoetry, sampleYarn]" "[]" "diskWith [''Gemfile''] [''*.rb'']"
      "Fatal ''could not autodetect a language for your project''"]
  have undetected: "fst (GetBackend [samplePoetry, sampleYarn] [] (diskWith [''Gemfile''] [''*.rb''])) =
      Inl (Fatal ''could not autodetect a language for your project'')"
    by simp
  have found: "fst (GetBackend [samplePoetry, sampleYarn] [] (diskWith [''Gemfile''] [''*.ts''])) =
      Inr sampleYarn"
    by (simp add: sample_eval)
  from unknown undetected found show ?thesis
    by simp
qed

text \<open>
  Claim C3, as stated, fails: the language \<open>nodejs\<close> is the full name of one sample
  backend, but the backend named \<open>nodejs-yarn\<close> matches it too, so the filtered list has
  two entries and autodetection decides. On an empty file system the result is the first
  of the two, which is not the backend named \<open>nodejs\<close>; with \<open>package.json\<close> and
  \<open>package-lock.json\<close> on disk the result is the other one, so the file system does
  change the outcome.
\<close>

theorem exact_name_counterexample:
  "''nodejs'' \<noteq> [] \<and> sampleNodejs \<in> set [sampleYarn, sampleNodejs] \<and>
   Name sampleNodejs = ''nodejs'' \<and>
   fst (GetBackend [sampleYarn, sampleNodejs] ''nodejs'' (diskWith [] [])) = Inr sampleYarn \<and>
   fst (GetBackend [sampleYarn, sampleNodejs] ''nodejs''
          (diskWith [''package.json'', ''package-lock.json''] [])) = Inr sampleNodejs \<and>
   sampleYarn \<noteq> sampleNodejs"
  by (simp add: sample_eval)

text \<open>
  Claim C3, amended. When a language is given that is the full name of a registered
  backend and no other registered backend matches it, \<open>GetBackend\<close> returns that
  backend, whatever the state of the file system.
\<close>

theorem exact_name_sole_match:
  assumes "language \<noteq> []" and "b \<in> set languageBackends" and "Name b = language"
      and "\<forall>c \<in> set languageBackends. matchesLanguage c language \<longrightarrow> c = b"
  shows "fst (GetBackend languageBackends language d) = Inr b"
proof -
  from assms(3) have "matchesLanguage b language"
    using matches_own_name [of b] by simp
  from GetBackend_in_filtered [OF assms(1,2) this, of d] obtain c where
    "c \<in> set (filterBackends languageBackends language)"
    "fst (GetBackend languageBackends language d) = Inr c"
    by blast
  with assms(4) show ?thesis
    by (auto simp: filtered_matches)
qed

theorem exact_name_sole_match_witness:
  "fst (GetBackend [samplePoetry, sampleYarn, sampleNodejs] ''nodejs-yarn''
         (diskWith [''package.json'', ''package-lock.json''] [''*.py''])) = Inr sampleYarn"
proof -
  have "''nodejs-yarn'' \<noteq> []" "sampleYarn \<in> set [samplePoetry, sampleYarn, sampleNodejs]"
    "Name sampleYarn = ''nodejs-yarn''"
    "\<forall>c \<in> set [samplePoetry, sampleYarn, sampleNodejs].
       matchesLanguage c ''nodejs-yarn'' \<longrightarrow> c = sampleYarn"
    by (simp_all add: sample_eval)
  then show ?thesis
    by (rule exact_name_sole_match)
qed

text \<open>
  Claim C4. When a language is given and exactly one registered backend matches it,
  \<open>GetBackend\<close> returns that backend at once: the file system is handed back as it
  was, with no probe added to the list of probes made, and the result is the same for
  every file system, also one whose files point at another backend.
\<close>

theorem single_match_skips_autodetection:
  assumes "language \<noteq> []" and "filterBackends languageBackends language = [b]"
  shows "GetBackend languageBackends language d = (Inr b, d)"
  using assms by (simp add: GetBackend_def)

theorem single_match_skips_autodetection_witness:
  "GetBackend [samplePoetry, sampleYarn] ''python3''
     (diskWith [''package.json'', ''yarn.lock''] [''*.js'']) =
     (Inr samplePoetry, diskWith [''package.json'', ''yarn.lock''] [''*.js'']) \<and>
   probed (snd (GetBackend [samplePoetry, sampleYarn] ''python3''
     (diskWith [''package.json'', ''yarn.lock''] [''*.js'']))) = [] \<and>
   fst (GetBackend [samplePoetry, sampleYarn] []
     (diskWith [''package.json'', ''yarn.lock''] [''*.js''])) = Inr sampleYarn"
proof -
  have "''python3'' \<noteq> []" "filterBackends [samplePoetry, sampleYarn] ''python3'' = [samplePoetry]"
    by (simp_all add: sample_eval)
  then have "GetBackend [samplePoetry, sampleYarn] ''python3''
      (diskWith [''package.json'', ''yarn.lock''] [''*.js'']) =
      (Inr samplePoetry, diskWith [''package.json'', ''yarn.lock''] [''*.js''])"
    by (rule single_match_skips_autodetection)
  moreover have "probed (diskWith [''package.json'', ''yarn.lock''] [''*.js'']) = []"
    by (simp add: diskWith_def)
  moreover have "fst (GetBackend [samplePoetry, sampleYarn] []
     (diskWith [''package.json'', ''yarn.lock''] [''*.js''])) = Inr sampleYarn"
    by (simp add: sample_eval)
  ultimately show ?thesis
    by simp
qed

text \<open>
  Claim C5, as stated, fails: in the registry of the three sample backends all three
  have their specfile and lockfile; the second and the third are two backends, one
  earlier and one later, that both have both files, but resolving without a language
  returns the first backend of the registry, not the second.
\<close>

theorem registry_order_breaks_ties_counterexample:
  "[samplePoetry, sampleNodejs, sampleYarn] =
     [samplePoetry] @ sampleNodejs # [] @ sampleYarn # [] \<and>
   bothExist (diskWith [''pyproject.toml'', ''poetry.lock'', ''package.json'',
                ''package-lock.json'', ''yarn.lock''] []) sampleNodejs \<and>
   bothExist (diskWith [''pyproject.toml'', ''poetry.lock'', ''package.json'',
                ''package-lock.json'', ''yarn.lock''] []) sampleYarn \<and>
   fst (GetBackend [samplePoetry, sampleNodejs, sampleYarn] []
         (diskWith [''pyproject.toml'', ''poetry.lock'', ''package.json'',
            ''package-lock.json'', ''yarn.lock''] [])) = Inr samplePoetry \<and>
   samplePoetry \<noteq> sampleNodejs"
  by (simp add: sample_eval)

text \<open>
  Claim C5, amended. The order of the registry breaks ties between equally strong
  evidence: when \<open>D1\<close> and a later \<open>D2\<close> both have their specfile and lockfile,
  resolving without a language returns a backend with both files that stands at or
  before \<open>D1\<close>, never one after it; it returns \<open>D1\<close> when no backend before \<open>D1\<close> has
  both files.
\<close>

theorem registry_order_breaks_ties:
  assumes "languageBackends = pre @ D1 # mid @ D2 # post"
      and "bothExist d D1" and "bothExist d D2"
  shows "(\<exists>c \<in> set (pre @ [D1]). bothExist d c \<and>
            fst (GetBackend languageBackends [] d) = Inr c) \<and>
         ((\<forall>b \<in> set pre. \<not> bothExist d b) \<longrightarrow>
            fst (GetBackend languageBackends [] d) = Inr D1)"
proof -
  from find_at_or_before [of "bothExist d" D1 pre "mid @ D2 # post", OF assms(2)] assms(1)
  obtain c where "c \<in> set (pre @ [D1])" "bothExist d c"
      "find (bothExist d) languageBackends = Some c"
    by auto
  then have earlier: "\<exists>c \<in> set (pre @ [D1]). bothExist d c \<and>
      fst (GetBackend languageBackends [] d) = Inr c"
    by (auto simp: GetBackend_spec detected_def)
  have first: "fst (GetBackend languageBackends [] d) = Inr D1"
    if none: "\<forall>b \<in> set pre. \<not> bothExist d b"
  proof -
    from find_first [OF none assms(2), of "mid @ D2 # post"] assms(1)
    have "find (bothExist d) languageBackends = Some D1"
      by simp
    then show ?thesis
      by (simp add: GetBackend_spec detected_def)
  qed
  from earlier first show ?thesis
    by blast
qed

theorem registry_order_breaks_ties_witness:
  "fst (GetBackend [samplePoetry, sampleNodejs, sampleYarn] []
         (diskWith [''package.json'', ''yarn.lock'', ''package-lock.json''] [''*.py''])) =
     Inr sampleNodejs"
proof -
  let ?d = "diskWith [''package.json'', ''yarn.lock'', ''package-lock.json''] [''*.py'']"
  have "[samplePoetry, sampleNodejs, sampleYarn] = [samplePoetry] @ sampleNodejs # [] @ sampleYarn # []"
    by simp
  moreover have "bothExist ?d sampleNodejs" "bothExist ?d sampleYarn"
    by (simp_all add: sample_eval)
  ultimately have "(\<forall>b \<in> set [samplePoetry]. \<not> bothExist ?d b) \<longrightarrow>
      fst (GetBackend [samplePoetry, sampleNodejs, sampleYarn] [] ?d) = Inr sampleNodejs"
    using registry_order_breaks_ties [of "[samplePoetry, sampleNodejs, sampleYarn]" "[samplePoetry]"
        sampleNodejs "[]" sampleYarn "[]" ?d]
    by blast
  moreover have "\<forall>b \<in> set [samplePoetry]. \<not> bothExist ?d b"
    by (simp add: sample_eval)
  ultimately show ?thesis
    by blast
qed

text \<open>
  Claim C6. When a language is given, two or more registered backends match it, and
  none of these has its specfile, its lockfile or a pattern hit, \<open>GetBackend\<close> returns
  the first backend of the filtered list and does not fail.
\<close>

theorem narrowed_fallback:
  assumes "language \<noteq> []"
      and "filterBackends languageBackends language = D1 # D2 # rest"
      and "\<forall>b \<in> set (D1 # D2 # rest).
             \<not> existing d (Specfile b) \<and> \<not> existing d (Lockfile b) \<and> \<not> patternHit d b"
  shows "fst (GetBackend languageBackends language d) = Inr D1"
proof -
  from assms(3) have "detected d (D1 # D2 # rest) = None"
    by (simp only: detected_None_iff)
  with assms(1,2) show ?thesis
    by (simp add: GetBackend_spec filterBackends_filter [symmetric])
qed

theorem narrowed_fallback_witness:
  "fst (GetBackend [samplePoetry, sampleYarn, sampleNodejs] ''nodejs''
         (diskWith [''pyproject.toml'', ''poetry.lock''] [''*.py''])) = Inr sampleYarn"
proof -
  let ?d = "diskWith [''pyproject.toml'', ''poetry.lock''] [''*.py'']"
  have "''nodejs'' \<noteq> []"
    "filterBackends [samplePoetry, sampleYarn, sampleNodejs] ''nodejs'' = sampleYarn # sampleNodejs # []"
    "\<forall>b \<in> set (sampleYarn # sampleNodejs # []).
       \<not> existing ?d (Specfile b) \<and> \<not> existing ?d (Lockfile b) \<and> \<not> patternHit ?d b"
    by (simp_all add: sample_eval)
  then show ?thesis
    by (rule narrowed_fallback)
qed

text \<open>
  Claim C9. Resolution is deterministic and idempotent. The outcome depends on the
  registry, the language and the snapshot of the file system only: two file systems that
  answer every probe alike give the same outcome, whatever probes were made before. A
  call leaves the snapshot as it was, so a second call with the same language, made
  after the first, has the same outcome (the same backend or the same failure).
\<close>

theorem resolution_deterministic:
  "(sameSnapshot d d' \<longrightarrow>
      fst (GetBackend languageBackends language d') = fst (GetBackend languageBackends language d)) \<and>
   sameSnapshot d (snd (GetBackend languageBackends language d)) \<and>
   fst (GetBackend languageBackends language (snd (GetBackend languageBackends language d))) =
     fst (GetBackend languageBackends language d)"
proof -
  have indep: "fst (GetBackend languageBackends language d2) =
      fst (GetBackend languageBackends language d1)" if "sameSnapshot d1 d2" for d1 d2
    using that by (simp add: GetBackend_spec sameSnapshot_detected split: list.splits)
  have unchanged: "sameSnapshot d (snd (GetBackend languageBackends language d))"
    by (simp add: GetBackend_spec)
  from indep [of d d'] unchanged indep [OF unchanged] show ?thesis
    by blast
qed

theorem resolution_deterministic_witness:
  "fst (GetBackend [samplePoetry, sampleYarn, sampleNodejs] []
          (snd (GetBackend [samplePoetry, sampleYarn, sampleNodejs] []
                 (diskWith [''package.json''] [''*.py''])))) = Inr sampleYarn \<and>
   fst (GetBackend [samplePoetry, sampleYarn, sampleNodejs] []
          (diskWith [''package.json''] [''*.py''])) = Inr sampleYarn \<and>
   probed (snd (GetBackend [samplePoetry, sampleYarn, sampleNodejs] []
                 (diskWith [''package.json''] [''*.py'']))) \<noteq> []"
proof -
  let ?d = "diskWith [''package.json''] [''*.py'']"
  let ?reg = "[samplePoetry, sampleYarn, sampleNodejs]"
  have first: "fst (GetBackend ?reg [] ?d) = Inr sampleYarn"
    by (simp add: sample_eval)
  have grown: "probed (snd (GetBackend ?reg [] ?d)) \<noteq> []"
    by (simp add: sample_eval)
  from resolution_deterministic [of ?d ?d ?reg "[]"] first
  have "fst (GetBackend ?reg [] (snd (GetBackend ?reg [] ?d))) = Inr sampleYarn"
    by simp
  with first grown show ?thesis
    by simp
qed

text \<open>
  Claim C10. When a language is given and some registered backend matches it,
  \<open>GetBackend\<close> does not fail, and the backend it returns is one of the filtered
  list: it is registered and it matches the language itself, whichever branch returned it.
\<close>

theorem result_matches_hint:
  assumes "language \<noteq> []" and "b \<in> set languageBackends" and "matchesLanguage b language"
  shows "\<exists>c. fst (GetBackend languageBackends language d) = Inr c \<and>
           c \<in> set (filterBackends languageBackends language) \<and>
           c \<in> set languageBackends \<and> matchesLanguage c language"
  using GetBackend_in_filtered [OF assms, of d]
  by (auto simp: filtered_matches)

theorem result_matches_hint_witness:
  "\<exists>c. fst (GetBackend [samplePoetry, sampleNodejs, sampleYarn] ''nodejs''
              (diskWith [''pyproject.toml'', ''poetry.lock''] [''*.py''])) = Inr c \<and>
       c \<in> set (filterBackends [samplePoetry, sampleNodejs, sampleYarn] ''nodejs'') \<and>
       c \<in> set [samplePoetry, sampleNodejs, sampleYarn] \<and> matchesLanguage c ''nodejs''"
proof -
  have "''nodejs'' \<noteq> []" "sampleYarn \<in> set [samplePoetry, sampleNodejs, sampleYarn]"
    "matchesLanguage sampleYarn ''nodejs''"
    by (simp_all add: sample_eval)
  then show ?thesis
    by (rule result_matches_hint)
qed

end
